theory Spec2Isabelle
  imports Complex_Main "HOL-Library.Char_ord" "HOL-Library.List_Lexorder"
begin

section \<open>Exceptions, the log and the process state\<close>

text \<open>
  Both source files are Python. An exception is a value. The handlers of the source name
  the classes \<open>Exception\<close> and \<open>OSError\<close>, and \<open>list.pop\<close> raises \<open>IndexError\<close>;
  \<open>OSError\<close> and \<open>IndexError\<close> are subclasses of \<open>Exception\<close>. \<open>KeyboardInterrupt\<close>
  and \<open>SystemExit\<close> are exceptions outside the class \<open>Exception\<close>. The string is what
  \<open>str(e)\<close> (and so an f-string \<open>{e}\<close>) gives.
\<close>

datatype exn =
  Exception string
| OSError string
| IndexError string
| KeyboardInterrupt
| SystemExit string

fun exn_str :: "exn \<Rightarrow> string" where
  "exn_str (Exception m) = m"
| "exn_str (OSError m) = m"
| "exn_str (IndexError m) = m"
| "exn_str KeyboardInterrupt = []"
| "exn_str (SystemExit m) = m"

text \<open>\<open>isinstance(e, Exception)\<close> and \<open>isinstance(e, OSError)\<close>.\<close>

fun is_Exception :: "exn \<Rightarrow> bool" where
  "is_Exception (Exception m) = True"
| "is_Exception (OSError m) = True"
| "is_Exception (IndexError m) = True"
| "is_Exception KeyboardInterrupt = False"
| "is_Exception (SystemExit m) = False"

fun is_OSError :: "exn \<Rightarrow> bool" where
  "is_OSError (OSError m) = True"
| "is_OSError (Exception m) = False"
| "is_OSError (IndexError m) = False"
| "is_OSError KeyboardInterrupt = False"
| "is_OSError (SystemExit m) = False"

datatype level = INFO | WARNING | ERROR | CRITICAL

type_synonym log_record = "level \<times> string"

text \<open>
  The state a run of \<open>01_generate-synthetic-data.py\<close> acts on: the records the module's
  logger \<open>log\<close> has emitted (oldest first), the state of numpy's global random generator,
  and everything else outside the process (directories, the figure, the CSV file).
\<close>

record ('r, 'w) state =
  logged :: "log_record list"
  rng :: 'r
  world :: 'w

type_synonym ('r, 'w, 'a) prog = "('r, 'w) state \<Rightarrow> (exn + 'a) \<times> ('r, 'w) state"

definition py_return :: "'a \<Rightarrow> ('r, 'w, 'a) prog" where
  "py_return a s = (Inr a, s)"

definition py_raise :: "exn \<Rightarrow> ('r, 'w, 'a) prog" where
  "py_raise e s = (Inl e, s)"

text \<open>Sequencing: a statement that raises skips the statements after it.\<close>

definition py_bind :: "('r, 'w, 'a) prog \<Rightarrow> ('a \<Rightarrow> ('r, 'w, 'b) prog) \<Rightarrow> ('r, 'w, 'b) prog" where
  "py_bind m f s = (case m s of (Inl e, s') \<Rightarrow> (Inl e, s') | (Inr a, s') \<Rightarrow> f a s')"

text \<open>
  \<open>try: body  except Exception as e: handler\<close>. The handler takes the instances of
  \<open>Exception\<close>; any other exception leaves the statement as it was raised.
\<close>

definition py_try :: "('r, 'w, 'a) prog \<Rightarrow> (exn \<Rightarrow> ('r, 'w, 'a) prog) \<Rightarrow> ('r, 'w, 'a) prog" where
  "py_try body handler s =
     (case body s of
        (Inl e, s') \<Rightarrow> if is_Exception e then handler e s' else (Inl e, s')
      | (Inr a, s') \<Rightarrow> (Inr a, s'))"

text \<open>The four methods of \<open>LoggerManager\<close> that emit a record (utils.py, lines 68-82).\<close>

definition emit :: "level \<Rightarrow> string \<Rightarrow> ('r, 'w, unit) prog" where
  "emit l message s = (Inr (), s\<lparr>logged := logged s @ [(l, message)]\<rparr>)"

definition info :: "string \<Rightarrow> ('r, 'w, unit) prog" where
  "info message = emit INFO message"

definition warning :: "string \<Rightarrow> ('r, 'w, unit) prog" where
  "warning message = emit WARNING message"

definition error :: "string \<Rightarrow> ('r, 'w, unit) prog" where
  "error message = emit ERROR message"


section \<open>The libraries the script calls\<close>

text \<open>An observation row of the data frame: the columns \<open>Price\<close> and \<open>Quantity\<close>.\<close>

record row =
  Price :: real
  Quantity :: real

type_synonym dataset = "row list"

datatype plt_call =
  Figure nat nat
| Scatter "real list" "real list" real
| XLabel string
| YLabel string
| Title string
| Savefig string

text \<open>
  numpy's random generator, the directory creation, matplotlib and the CSV writer are not
  part of the repository: they are parameters of the model. A random primitive draws one
  sample from the generator's state and gives the next state; any library call may raise.
  \<open>random_seed k\<close> is the generator state \<open>np.random.seed(k)\<close> installs.
\<close>

record ('r, 'w) env =
  random_seed :: "nat \<Rightarrow> 'r"
  random_exponential :: "real \<Rightarrow> 'r \<Rightarrow> exn + real \<times> 'r"
  random_normal :: "real \<Rightarrow> real \<Rightarrow> 'r \<Rightarrow> exn + real \<times> 'r"
  random_uniform :: "real \<Rightarrow> real \<Rightarrow> 'r \<Rightarrow> exn + real \<times> 'r"
  os_makedirs :: "string \<Rightarrow> bool \<Rightarrow> 'w \<Rightarrow> exn + 'w"
  plt :: "plt_call \<Rightarrow> 'w \<Rightarrow> exn + 'w"
  to_csv :: "dataset \<Rightarrow> string \<Rightarrow> bool \<Rightarrow> 'w \<Rightarrow> exn + 'w"


text \<open>\<open>size=n\<close>: \<open>n\<close> samples drawn one after the other from the generator state.\<close>

fun draw :: "nat \<Rightarrow> ('r \<Rightarrow> exn + real \<times> 'r) \<Rightarrow> 'r \<Rightarrow> exn + real list \<times> 'r" where
  "draw 0 f r = Inr ([], r)"
| "draw (Suc k) f r =
     (case f r of
        Inl e \<Rightarrow> Inl e
      | Inr (x, r') \<Rightarrow>
          (case draw k f r' of
             Inl e \<Rightarrow> Inl e
           | Inr (xs, r'') \<Rightarrow> Inr (x # xs, r'')))"

definition np_random :: "('r \<Rightarrow> exn + real \<times> 'r) \<Rightarrow> nat \<Rightarrow> ('r, 'w, real list) prog" where
  "np_random f n s =
     (case draw n f (rng s) of
        Inl e \<Rightarrow> (Inl e, s)
      | Inr (xs, r') \<Rightarrow> (Inr xs, s\<lparr>rng := r'\<rparr>))"

text \<open>
  Arithmetic on one-dimensional arrays: a scalar is applied to every element, two arrays
  are added element by element, an array of one element is broadcast, and two arrays of
  other, different sizes make numpy raise \<open>ValueError\<close>.
\<close>

definition np_add :: "real list \<Rightarrow> real list \<Rightarrow> ('r, 'w, real list) prog" where
  "np_add xs ys =
     (if length xs = length ys then py_return (map2 (+) xs ys)
      else if length ys = 1 then py_return (map (\<lambda>x. x + hd ys) xs)
      else if length xs = 1 then py_return (map (\<lambda>y. hd xs + y) ys)
      else py_raise (Exception ''operands could not be broadcast together''))"

definition clip_min :: "real \<Rightarrow> real list \<Rightarrow> real list" where
  "clip_min lo xs = map (max lo) xs"

text \<open>\<open>pd.DataFrame({'Price': price, 'Quantity': quantity})\<close>: columns of one length.\<close>

definition DataFrame :: "real list \<Rightarrow> real list \<Rightarrow> ('r, 'w, dataset) prog" where
  "DataFrame price quantity =
     (if length price = length quantity
      then py_return (map2 (\<lambda>p q. \<lparr>Price = p, Quantity = q\<rparr>) price quantity)
      else py_raise (Exception ''All arrays must be of the same length''))"

section \<open>01_generate-synthetic-data.py\<close>

text \<open>
  \<open>generate_synthetic_data\<close> (lines 40-89): the body of the \<open>try\<close> and the function
  with its handler. Numbers are real numbers: rounding of floating point is not modelled.
\<close>

definition generate_synthetic_data_body :: "('r, 'w) env \<Rightarrow> ('r, 'w, dataset) prog" where
  "generate_synthetic_data_body env =
     py_bind (info ''Generating synthetic data'') (\<lambda>_.
     let n = 100 in
     py_bind (np_random (random_exponential env 100) n) (\<lambda>drawn.
     let price = sort drawn in
     py_bind (np_random (random_normal env 0 50) n) (\<lambda>noise.
     py_bind (np_add (map (\<lambda>p. 1000 - 5 * p) price) noise) (\<lambda>quantity.
     let quantity = clip_min 0 quantity;
         n_outliers = 10 in
     py_bind (np_random (random_uniform env 5 50) n_outliers) (\<lambda>outlier_prices.
     py_bind (np_random (random_normal env 0 50) n_outliers) (\<lambda>outlier_noise.
     let outlier_quantity = map (\<lambda>z. 1100 + z) outlier_noise;
         price = price @ outlier_prices;
         quantity = quantity @ outlier_quantity;
         n_outliers = 10 in
     py_bind (np_random (random_uniform env 51 100) n_outliers) (\<lambda>outlier_prices.
     py_bind (np_random (random_normal env 0 50) n_outliers) (\<lambda>outlier_noise.
     let outlier_quantity = map (\<lambda>z. 900 + z) outlier_noise;
         price = price @ outlier_prices;
         quantity = quantity @ outlier_quantity in
     py_bind (DataFrame price quantity) (\<lambda>df.
     let df = filter (\<lambda>r. Price r \<ge> 5) df in
     py_bind (info (CHR 0x09 # ''Synthetic data generation completed'')) (\<lambda>_.
     py_return df))))))))))"

definition generate_synthetic_data :: "('r, 'w) env \<Rightarrow> ('r, 'w, dataset) prog" where
  "generate_synthetic_data env =
     py_try (generate_synthetic_data_body env)
       (\<lambda>e. py_bind (error (CHR 0x09 # ''Error in generating synthetic data: '' @ exn_str e))
          (\<lambda>_. py_raise e))"






section \<open>utils.py\<close>

text \<open>
  \<open>LoggerManager\<close> reaches the file system through \<open>os.makedirs\<close>, \<open>glob.glob\<close>,
  \<open>os.remove\<close> and \<open>logging.FileHandler\<close>, which opens its file for appending. None
  of them is part of the repository: they are parameters of the model, over any type of
  file-system states. \<open>os.remove\<close> and the opening change nothing when they raise;
  \<open>os.makedirs\<close> may have made some of the directories before it raises, so its
  exception comes with the file system it leaves.
\<close>

record 'fs os =
  fs_makedirs :: "string \<Rightarrow> bool \<Rightarrow> 'fs \<Rightarrow> exn \<times> 'fs + 'fs"
  fs_glob :: "string \<Rightarrow> 'fs \<Rightarrow> string list"
  fs_remove :: "string \<Rightarrow> 'fs \<Rightarrow> exn + 'fs"
  fs_open :: "string \<Rightarrow> 'fs \<Rightarrow> exn + 'fs"

text \<open>
  What a construction acts on: the file system and the lines written to the two standard
  streams. \<open>print\<close> writes to standard output. The console handler of a logger writes to
  standard error when a record is emitted; the constructor emits none.
\<close>

record 'fs process =
  fs :: 'fs
  stdout :: "string list"
  stderr :: "string list"

definition print :: "string \<Rightarrow> 'fs process \<Rightarrow> 'fs process" where
  "print line s = s\<lparr>stdout := stdout s @ [line]\<rparr>"

text \<open>\<open>os.path.join\<close> of two components on a POSIX system.\<close>

definition os_path_join :: "string \<Rightarrow> string \<Rightarrow> string" where
  "os_path_join a b =
     (if b \<noteq> [] \<and> hd b = CHR ''/'' then b
      else if a = [] \<or> last a = CHR ''/'' then a @ b
      else a @ ''/'' @ b)"

text \<open>
  The \<open>while\<close> loop of \<open>_cleanup_old_logs\<close> (lines 61-66). \<open>existing_logs.pop(0)\<close>
  raises \<open>IndexError\<close> on the empty list; the handler of the loop takes \<open>OSError\<close> only.
\<close>

fun cleanup_loop :: "'fs os \<Rightarrow> string list \<Rightarrow> int \<Rightarrow> 'fs process \<Rightarrow> (exn + unit) \<times> 'fs process" where
  "cleanup_loop env [] max_log_files s =
     (if int (length ([] :: string list)) \<ge> max_log_files
      then (Inl (IndexError ''pop from empty list''), s)
      else (Inr (), s))"
| "cleanup_loop env (oldest_log # existing_logs) max_log_files s =
     (if int (length (oldest_log # existing_logs)) \<ge> max_log_files
      then (case fs_remove env oldest_log (fs s) of
              Inr fs' \<Rightarrow> cleanup_loop env existing_logs max_log_files (s\<lparr>fs := fs'\<rparr>)
            | Inl e \<Rightarrow>
                if is_OSError e
                then cleanup_loop env existing_logs max_log_files
                       (print (''Error removing log file '' @ oldest_log @ '': '' @ exn_str e) s)
                else (Inl e, s))
      else (Inr (), s))"

definition log_pattern :: "string \<Rightarrow> string \<Rightarrow> string" where
  "log_pattern script_name log_dir = os_path_join log_dir (script_name @ ''-*.log'')"

text \<open>\<open>_cleanup_old_logs\<close> (lines 47-66).\<close>

definition cleanup_old_logs :: "'fs os \<Rightarrow> string \<Rightarrow> string \<Rightarrow> int \<Rightarrow> 'fs process \<Rightarrow> (exn + unit) \<times> 'fs process" where
  "cleanup_old_logs env script_name log_dir max_log_files s =
     (let existing_logs = sort (fs_glob env (log_pattern script_name log_dir) (fs s))
      in cleanup_loop env existing_logs max_log_files s)"

definition log_filename :: "string \<Rightarrow> string \<Rightarrow> string \<Rightarrow> string" where
  "log_filename script_name log_dir timestamp =
     os_path_join log_dir (script_name @ ''-'' @ timestamp @ ''.log'')"

text \<open>
  \<open>LoggerManager.__init__\<close> (lines 7-45), with the reading of the clock
  (\<open>datetime.now().strftime(...)\<close>) as the parameter \<open>timestamp\<close>: the directory is
  made, the old logs are cleaned up, the file handler opens the new log file. The result
  is the name of that file.
\<close>

definition LoggerManager :: "'fs os \<Rightarrow> string \<Rightarrow> int \<Rightarrow> string \<Rightarrow> string \<Rightarrow> 'fs process \<Rightarrow> (exn + string) \<times> 'fs process" where
  "LoggerManager env script_name max_log_files log_dir timestamp s =
     (case fs_makedirs env log_dir True (fs s) of
        Inl (e, fs1) \<Rightarrow> (Inl e, s\<lparr>fs := fs1\<rparr>)
      | Inr fs1 \<Rightarrow>
          (case cleanup_old_logs env script_name log_dir max_log_files (s\<lparr>fs := fs1\<rparr>) of
             (Inl e, s2) \<Rightarrow> (Inl e, s2)
           | (Inr _, s2) \<Rightarrow>
               (case fs_open env (log_filename script_name log_dir timestamp) (fs s2) of
                  Inl e \<Rightarrow> (Inl e, s2)
                | Inr fs3 \<Rightarrow> (Inr (log_filename script_name log_dir timestamp), s2\<lparr>fs := fs3\<rparr>))))"

text \<open>\<open>create_logger\<close> (lines 85-95): the defaults of the constructor.\<close>

definition create_logger :: "'fs os \<Rightarrow> string \<Rightarrow> string \<Rightarrow> 'fs process \<Rightarrow> (exn + string) \<times> 'fs process" where
  "create_logger env script_name timestamp s = LoggerManager env script_name 3 ''logs'' timestamp s"


text \<open>The log files of a component: what \<open>glob.glob\<close> lists for its pattern.\<close>

definition log_files :: "'fs os \<Rightarrow> string \<Rightarrow> string \<Rightarrow> 'fs process \<Rightarrow> string list" where
  "log_files env script_name log_dir s = fs_glob env (log_pattern script_name log_dir) (fs s)"

section \<open>The generator as the specification describes it\<close>

text \<open>
  The specification builds the data set row by row: the base rows pair the sorted
  exponential prices with the clipped linear demand, an outlier batch pairs uniform prices
  with a quantity around its centre, the three batches are put one after the other (base,
  low-price outliers, high-price outliers) and the rows with a price under 5 are dropped.
  \<open>spec_generate\<close> draws in the order of the specification's steps and gives the data
  set (or the exception of the first draw that raises) with the generator state reached.
\<close>

definition base_rows :: "real list \<Rightarrow> real list \<Rightarrow> dataset" where
  "base_rows prices noise =
     map2 (\<lambda>p z. \<lparr>Price = p, Quantity = max 0 (1000 - 5 * p + z)\<rparr>) (sort prices) noise"

definition outlier_rows :: "real \<Rightarrow> real list \<Rightarrow> real list \<Rightarrow> dataset" where
  "outlier_rows centre prices noise = map2 (\<lambda>p z. \<lparr>Price = p, Quantity = centre + z\<rparr>) prices noise"

definition spec_generate :: "('r, 'w) env \<Rightarrow> 'r \<Rightarrow> (exn + dataset) \<times> 'r" where
  "spec_generate env r0 =
     (case draw 100 (random_exponential env 100) r0 of Inl e \<Rightarrow> (Inl e, r0) | Inr (base_prices, r1) \<Rightarrow>
      (case draw 100 (random_normal env 0 50) r1 of Inl e \<Rightarrow> (Inl e, r1) | Inr (base_noise, r2) \<Rightarrow>
      (case draw 10 (random_uniform env 5 50) r2 of Inl e \<Rightarrow> (Inl e, r2) | Inr (low_prices, r3) \<Rightarrow>
      (case draw 10 (random_normal env 0 50) r3 of Inl e \<Rightarrow> (Inl e, r3) | Inr (low_noise, r4) \<Rightarrow>
      (case draw 10 (random_uniform env 51 100) r4 of Inl e \<Rightarrow> (Inl e, r4) | Inr (high_prices, r5) \<Rightarrow>
      (case draw 10 (random_normal env 0 50) r5 of Inl e \<Rightarrow> (Inl e, r5) | Inr (high_noise, r6) \<Rightarrow>
         (Inr (filter (\<lambda>r. \<not> Price r < 5)
                (base_rows base_prices base_noise
                 @ outlier_rows 1100 low_prices low_noise
                 @ outlier_rows 900 high_prices high_noise)), r6)))))))"

section \<open>The cleanup as the specification describes it\<close>




section \<open>Concrete inputs\<close>

text \<open>
  Generators over a counter, for evaluating the model by hand: every primitive gives one
  value fixed by its parameters and counts the draw. \<open>steady_env\<close> draws the price 20
  and the noise -50; \<open>late_sale_env\<close> draws the price 2 for the last three base rows;
  \<open>tail_env\<close> draws the price 100 and a noise of 12 standard deviations below the mean.
  In the other environments one library call raises: the first directory cannot be made
  (\<open>no_dirs_env\<close>), the uniform draw raises an \<open>Exception\<close> (\<open>failing_env\<close>) or is
  interrupted from the keyboard (\<open>interrupted_env\<close>), the figure cannot be saved
  (\<open>no_chart_env\<close>), the CSV file cannot be written (\<open>readonly_env\<close>).
\<close>

definition steady_env :: "(nat, unit) env" where
  "steady_env = \<lparr>
     random_seed = (\<lambda>k. k),
     random_exponential = (\<lambda>scale r. Inr (scale / 5, Suc r)),
     random_normal = (\<lambda>loc sd r. Inr (loc - sd, Suc r)),
     random_uniform = (\<lambda>low high r. Inr ((low + high) / 2, Suc r)),
     os_makedirs = (\<lambda>path exist_ok w. Inr w),
     plt = (\<lambda>c w. Inr w),
     to_csv = (\<lambda>df path index w. Inr w)\<rparr>"

definition steady_dataset :: dataset where
  "steady_dataset =
     replicate 100 \<lparr>Price = 20, Quantity = 850\<rparr>
     @ replicate 10 \<lparr>Price = 55 / 2, Quantity = 1050\<rparr>
     @ replicate 10 \<lparr>Price = 151 / 2, Quantity = 850\<rparr>"

definition late_sale_env :: "(nat, unit) env" where
  "late_sale_env = steady_env\<lparr>random_exponential :=
     (\<lambda>scale r. Inr (if r < 97 then scale / 5 else scale / 50, Suc r))\<rparr>"

definition late_sale_dataset :: dataset where
  "late_sale_dataset =
     replicate 97 \<lparr>Price = 20, Quantity = 850\<rparr>
     @ replicate 10 \<lparr>Price = 55 / 2, Quantity = 1050\<rparr>
     @ replicate 10 \<lparr>Price = 151 / 2, Quantity = 850\<rparr>"



definition quoted :: "string \<Rightarrow> string" where
  "quoted p = CHR 0x27 # p @ [CHR 0x27]"


definition failing_env :: "(nat, unit) env" where
  "failing_env = steady_env\<lparr>random_uniform :=
     (\<lambda>low high r. Inl (Exception ''entropy source unavailable''))\<rparr>"

definition interrupted_env :: "(nat, unit) env" where
  "interrupted_env = steady_env\<lparr>random_uniform := (\<lambda>low high r. Inl KeyboardInterrupt)\<rparr>"



definition fresh :: "(nat, unit) state" where
  "fresh = \<lparr>logged = [], rng = 0, world = ()\<rparr>"

definition used :: "(nat, unit) state" where
  "used = \<lparr>logged = [(INFO, ''Starting data generation script'')], rng = 0, world = ()\<rparr>"





section \<open>A directory of log files\<close>

text \<open>
  A machine for evaluating the model by hand. The directory \<open>logs\<close> exists, holds the
  files listed and is the only directory: no other can be made, and a file opens only
  directly under it. Some files cannot be unlinked (a file made immutable, say); the state
  gives the text of the \<open>OSError\<close> that the system raises for each of them. No name on this machine holds a
  wildcard character, and the only one in a pattern is the \<open>*\<close> that
  \<open>_cleanup_old_logs\<close> writes: \<open>star_match\<close> reads \<open>*\<close> as any run of characters other
  than the separator and every other character as itself.
\<close>

record disk =
  files :: "string list"
  refused :: "(string \<times> string) list"

fun star_match :: "string \<Rightarrow> string \<Rightarrow> bool" where
  "star_match [] s = (s = [])"
| "star_match (p # ps) [] = (p = CHR ''*'' \<and> star_match ps [])"
| "star_match (p # ps) (c # cs) =
     (if p = CHR ''*'' then star_match ps (c # cs) \<or> (c \<noteq> CHR ''/'' \<and> star_match (p # ps) cs)
      else c = p \<and> star_match ps cs)"

definition in_logs :: "string \<Rightarrow> bool" where
  "in_logs path \<longleftrightarrow> take 5 path = ''logs/'' \<and> CHR ''/'' \<notin> set (drop 5 path)"

definition logs_dir :: "disk os" where
  "logs_dir = \<lparr>
     fs_makedirs = (\<lambda>path exist_ok d.
       if path = ''logs'' \<and> exist_ok then Inr d
       else Inl (OSError (''[Errno 13] Permission denied: '' @ quoted path), d)),
     fs_glob = (\<lambda>pattern d. remdups (filter (star_match pattern) (files d))),
     fs_remove = (\<lambda>path d.
       case map_of (refused d) path of
         Some message \<Rightarrow> Inl (OSError message)
       | None \<Rightarrow>
           if path \<in> set (files d) then Inr (d\<lparr>files := removeAll path (files d)\<rparr>)
           else Inl (OSError (''[Errno 2] No such file or directory: '' @ quoted path))),
     fs_open = (\<lambda>path d.
       if \<not> in_logs path then Inl (OSError (''[Errno 2] No such file or directory: '' @ quoted path))
       else if path \<in> set (files d) then Inr d
       else Inr (d\<lparr>files := files d @ [path]\<rparr>))\<rparr>"

text \<open>
  The logs of a component \<open>app-core\<close> alone; three logs of \<open>app\<close> beside a log of
  \<open>web\<close> and a file that is no log; and three logs of \<open>app\<close> of which the oldest cannot
  be unlinked. \<open>five_stamps\<close> are five readings of the clock after all of them.
\<close>

definition core_logs :: "disk process" where
  "core_logs = \<lparr>fs = \<lparr>files =
      [''logs/app-core-2024-01-01-09-00-00.log'',
       ''logs/app-core-2024-01-02-09-00-00.log'',
       ''logs/app-core-2024-01-03-09-00-00.log''],
     refused = []\<rparr>, stdout = [], stderr = []\<rparr>"




section \<open>Properties of the generator\<close>

subsection \<open>The source refines the specification's construction\<close>

lemma draw_length: "draw n f r = Inr (xs, r') \<Longrightarrow> length xs = n"
  by (induction n arbitrary: r xs r') (auto split: sum.splits prod.splits)

lemma draw_all:
  "draw n f r = Inr (xs, r') \<Longrightarrow> (\<And>r x r'. f r = Inr (x, r') \<Longrightarrow> P x) \<Longrightarrow> \<forall>x \<in> set xs. P x"
  by (induction n arbitrary: r xs r') (auto split: sum.splits prod.splits)

lemma draw_steady: "(\<And>r. f r = Inr (c, Suc r)) \<Longrightarrow> draw n f r = Inr (replicate n c, r + n)"
  by (induction n arbitrary: r) simp_all

lemma length_clip_min [simp]: "length (clip_min lo xs) = length xs"
  by (simp add: clip_min_def)

lemma base_columns:
  "length ps = length zs \<Longrightarrow>
   map2 (\<lambda>p q. \<lparr>Price = p, Quantity = q\<rparr>) ps (clip_min 0 (map2 (+) (map (\<lambda>p. 1000 - 5 * p) ps) zs))
   = map2 (\<lambda>p z. \<lparr>Price = p, Quantity = max 0 (1000 - 5 * p + z)\<rparr>) ps zs"
  by (induction ps zs rule: list_induct2) (simp_all add: clip_min_def)

lemma outlier_columns:
  "map2 (\<lambda>p q. \<lparr>Price = p, Quantity = q\<rparr>) ps (map (\<lambda>z. c + z) zs)
   = map2 (\<lambda>p z. \<lparr>Price = p, Quantity = c + z\<rparr>) ps zs"
  by (simp add: zip_map2 case_prod_unfold)

lemma bind_info: "py_bind (info m) k s = k () (s\<lparr>logged := logged s @ [(INFO, m)]\<rparr>)"
  by (simp add: py_bind_def info_def emit_def)

lemma bind_np_random:
  "py_bind (np_random f n) k s =
     (case draw n f (rng s) of Inl e \<Rightarrow> (Inl e, s) | Inr (xs, r') \<Rightarrow> k xs (s\<lparr>rng := r'\<rparr>))"
  by (simp add: py_bind_def np_random_def split: sum.splits prod.splits)

lemma bind_np_add: "length xs = length ys \<Longrightarrow> py_bind (np_add xs ys) k s = k (map2 (+) xs ys) s"
  by (simp add: py_bind_def np_add_def py_return_def)

lemma bind_DataFrame:
  "length xs = length ys \<Longrightarrow>
   py_bind (DataFrame xs ys) k s = k (map2 (\<lambda>p q. \<lparr>Price = p, Quantity = q\<rparr>) xs ys) s"
  by (simp add: py_bind_def DataFrame_def py_return_def)

lemma generate_body_eq:
  "generate_synthetic_data_body env s =
     (case spec_generate env (rng s) of
        (Inl e, r) \<Rightarrow> (Inl e, s\<lparr>logged := logged s @ [(INFO, ''Generating synthetic data'')], rng := r\<rparr>)
      | (Inr df, r) \<Rightarrow>
          (Inr df, s\<lparr>logged := logged s @ [(INFO, ''Generating synthetic data''),
                     (INFO, CHR 0x09 # ''Synthetic data generation completed'')], rng := r\<rparr>))"
proof -
  note defs = generate_synthetic_data_body_def spec_generate_def Let_def base_rows_def
    outlier_rows_def bind_info bind_np_random bind_np_add bind_DataFrame py_return_def
  show ?thesis
  proof (cases "draw 100 (random_exponential env 100) (rng s)")
    case (Inl e)
    then show ?thesis
      by (simp add: defs )
  next
    case (Inr p)
    then obtain x1 r1 where d1: "draw 100 (random_exponential env 100) (rng s) = Inr (x1, r1)"
      by (cases p) simp
    have l1: "length x1 = 100"
      using d1 by (rule draw_length)
    show ?thesis
    proof (cases "draw 100 (random_normal env 0 50) (r1)")
      case (Inl e)
      then show ?thesis
        by (simp add: defs d1 l1)
    next
      case (Inr p)
      then obtain x2 r2 where d2: "draw 100 (random_normal env 0 50) (r1) = Inr (x2, r2)"
        by (cases p) simp
      have l2: "length x2 = 100"
        using d2 by (rule draw_length)
      show ?thesis
      proof (cases "draw 10 (random_uniform env 5 50) (r2)")
        case (Inl e)
        then show ?thesis
          by (simp add: defs d1 l1 d2 l2)
      next
        case (Inr p)
        then obtain x3 r3 where d3: "draw 10 (random_uniform env 5 50) (r2) = Inr (x3, r3)"
          by (cases p) simp
        have l3: "length x3 = 10"
          using d3 by (rule draw_length)
        show ?thesis
        proof (cases "draw 10 (random_normal env 0 50) (r3)")
          case (Inl e)
          then show ?thesis
            by (simp add: defs d1 l1 d2 l2 d3 l3)
        next
          case (Inr p)
          then obtain x4 r4 where d4: "draw 10 (random_normal env 0 50) (r3) = Inr (x4, r4)"
            by (cases p) simp
          have l4: "length x4 = 10"
            using d4 by (rule draw_length)
          show ?thesis
          proof (cases "draw 10 (random_uniform env 51 100) (r4)")
            case (Inl e)
            then show ?thesis
              by (simp add: defs d1 l1 d2 l2 d3 l3 d4 l4)
          next
            case (Inr p)
            then obtain x5 r5 where d5: "draw 10 (random_uniform env 51 100) (r4) = Inr (x5, r5)"
              by (cases p) simp
            have l5: "length x5 = 10"
              using d5 by (rule draw_length)
            show ?thesis
            proof (cases "draw 10 (random_normal env 0 50) (r5)")
              case (Inl e)
              then show ?thesis
                by (simp add: defs d1 l1 d2 l2 d3 l3 d4 l4 d5 l5)
            next
              case (Inr p)
              then obtain x6 r6 where d6: "draw 10 (random_normal env 0 50) (r5) = Inr (x6, r6)"
                by (cases p) simp
              have l6: "length x6 = 10"
                using d6 by (rule draw_length)
              show ?thesis
                by (simp add: defs d1 l1 d2 l2 d3 l3 d4 l4 d5 l5 d6 l6 base_columns outlier_columns not_less)
            qed
          qed
        qed
      qed
    qed
  qed
qed

lemma generate_eq:
  "generate_synthetic_data env s =
     (case spec_generate env (rng s) of
        (Inl e, r) \<Rightarrow>
          (Inl e, s\<lparr>logged := logged s @ (INFO, ''Generating synthetic data'') #
                     (if is_Exception e
                      then [(ERROR, CHR 0x09 # ''Error in generating synthetic data: '' @ exn_str e)]
                      else []), rng := r\<rparr>)
      | (Inr df, r) \<Rightarrow>
          (Inr df, s\<lparr>logged := logged s @ [(INFO, ''Generating synthetic data''),
                     (INFO, CHR 0x09 # ''Synthetic data generation completed'')], rng := r\<rparr>))"
  by (simp add: generate_synthetic_data_def py_try_def generate_body_eq py_bind_def error_def
      emit_def py_raise_def split: sum.splits prod.splits)

lemma generate_fst: "fst (generate_synthetic_data env s) = fst (spec_generate env (rng s))"
  by (simp add: generate_eq split: sum.splits prod.splits)

lemma generate_rng: "rng (snd (generate_synthetic_data env s)) = snd (spec_generate env (rng s))"
  by (simp add: generate_eq split: sum.splits prod.splits)

lemma spec_generate_InrE:
  assumes "fst (spec_generate env r0) = Inr df"
  obtains x1 r1 x2 r2 x3 r3 x4 r4 x5 r5 x6 r6 where
    "draw 100 (random_exponential env 100) r0 = Inr (x1, r1)"
    "draw 100 (random_normal env 0 50) r1 = Inr (x2, r2)"
    "draw 10 (random_uniform env 5 50) r2 = Inr (x3, r3)"
    "draw 10 (random_normal env 0 50) r3 = Inr (x4, r4)"
    "draw 10 (random_uniform env 51 100) r4 = Inr (x5, r5)"
    "draw 10 (random_normal env 0 50) r5 = Inr (x6, r6)"
    "df = filter (\<lambda>r. \<not> Price r < 5)
            (base_rows x1 x2 @ outlier_rows 1100 x3 x4 @ outlier_rows 900 x5 x6)"
  using assms unfolding spec_generate_def
  by (auto split: sum.splits prod.splits)

subsection \<open>Rows of the batches\<close>

lemma Price_map2:
  "length ps = length zs \<Longrightarrow> map Price (map2 (\<lambda>p z. \<lparr>Price = p, Quantity = q p z\<rparr>) ps zs) = ps"
  by (induction ps zs rule: list_induct2) simp_all

lemma Price_base_rows: "length ps = length zs \<Longrightarrow> map Price (base_rows ps zs) = sort ps"
  unfolding base_rows_def by (rule Price_map2) simp

lemma Price_outlier_rows: "length ps = length zs \<Longrightarrow> map Price (outlier_rows c ps zs) = ps"
  unfolding outlier_rows_def by (rule Price_map2)



lemma length_filter_rows:
  "length (filter (\<lambda>r. \<not> Price r < 5) rows) = length (filter (\<lambda>p. 5 \<le> p) (map Price rows))"
  by (induction rows) (simp_all add: not_less)

lemma length_filter_sort: "length (filter P (sort xs)) = length (filter P (xs :: real list))"
  by (simp add: filter_sort)

lemma kept_base_rows:
  "length ps = length zs \<Longrightarrow>
   length (filter (\<lambda>r. \<not> Price r < 5) (base_rows ps zs)) = length (filter (\<lambda>p. 5 \<le> p) ps)"
  by (simp add: length_filter_rows Price_base_rows length_filter_sort)

lemma kept_outlier_rows:
  assumes "length ps = length zs" and "\<forall>p \<in> set ps. 5 \<le> p"
  shows "filter (\<lambda>r. \<not> Price r < 5) (outlier_rows c ps zs) = outlier_rows c ps zs"
proof -
  have "\<forall>row \<in> set (outlier_rows c ps zs). Price row \<in> set ps"
    by (auto simp: outlier_rows_def dest: set_zip_leftD)
  with assms(2) show ?thesis
    by (auto simp: filter_id_conv not_less)
qed

lemma length_outlier_rows: "length ps = length zs \<Longrightarrow> length (outlier_rows c ps zs) = length ps"
  by (simp add: outlier_rows_def)

subsection \<open>Runs on the concrete inputs\<close>

lemma sort_replicate: "sort (replicate n (c :: real)) = replicate n c"
  by (simp add: sorted_sort_id)

lemma steady_draws:
  "draw n (random_exponential steady_env scale) r = Inr (replicate n (scale / 5), r + n)"
  "draw n (random_normal steady_env loc sd) r = Inr (replicate n (loc - sd), r + n)"
  "draw n (random_uniform steady_env low high) r = Inr (replicate n ((low + high) / 2), r + n)"
  by (rule draw_steady, simp add: steady_env_def)+

lemma steady_spec: "spec_generate steady_env r = (Inr steady_dataset, r + 240)"
proof -
  have e: "\<And>scale. draw n (random_exponential steady_env scale) r = Inr (replicate n (scale / 5), r + n)" for n r
    by (rule draw_steady) (simp add: steady_env_def)
  have n: "\<And>loc sd. draw n (random_normal steady_env loc sd) r = Inr (replicate n (loc - sd), r + n)" for n r
    by (rule draw_steady) (simp add: steady_env_def)
  have u: "\<And>low high. draw n (random_uniform steady_env low high) r = Inr (replicate n ((low + high) / 2), r + n)" for n r
    by (rule draw_steady) (simp add: steady_env_def)
  show ?thesis
    by (simp add: spec_generate_def e n u base_rows_def outlier_rows_def sort_replicate steady_dataset_def)
qed

lemma draw_counter: "(\<And>r. f r = Inr (g r, Suc r)) \<Longrightarrow> draw n f r = Inr (map g [r..<r + n], r + n)"
proof (induction n arbitrary: r)
  case 0
  then show ?case by simp
next
  case (Suc n)
  have "[r..<r + Suc n] = r # [Suc r..<Suc r + n]"
    by (simp add: upt_conv_Cons)
  with Suc show ?case
    by (simp del: upt_Suc)
qed

lemma map_constant: "\<forall>x \<in> set xs. g x = c \<Longrightarrow> map g xs = replicate (length xs) c"
  by (induction xs) simp_all

lemma insort_past_smaller: "b < (a :: real) \<Longrightarrow> insort a (replicate n b @ ys) = replicate n b @ insort a ys"
  by (induction n) simp_all

lemma sort_two_runs:
  "b < (a :: real) \<Longrightarrow> sort (replicate m a @ replicate n b) = replicate n b @ replicate m a"
proof (induction m)
  case 0
  then show ?case by (simp add: sort_replicate)
next
  case (Suc m)
  have "insort a (replicate m a) = replicate (Suc m) a"
    by (cases m) simp_all
  with Suc show ?case
    by (simp add: insort_past_smaller)
qed

lemma late_sale_base:
  "draw 100 (random_exponential late_sale_env 100) 0 = Inr (replicate 97 20 @ replicate 3 2, 100)"
proof -
  let ?g = "\<lambda>r :: nat. if r < 97 then 100 / 5 else (100 / 50 :: real)"
  have "draw 100 (random_exponential late_sale_env 100) 0 = Inr (map ?g [0..<0 + 100], 0 + 100)"
    by (rule draw_counter) (simp add: late_sale_env_def)
  moreover have "[0..<100] = [0..<97] @ [97..<97 + 3]"
    using upt_add_eq_append [of 0 97 3] by simp
  moreover have "map ?g [0..<97] = replicate (length [0..<97]) 20"
    by (rule map_constant) simp
  moreover have "map ?g [97..<97 + 3] = replicate (length [97..<97 + 3]) 2"
    by (rule map_constant) simp
  ultimately show ?thesis
    by (simp add: numeral_3_eq_3)
qed

lemma late_sale_base_rows:
  "base_rows (replicate 97 20 @ replicate 3 2) (replicate 100 (- 50))
   = replicate 3 \<lparr>Price = 2, Quantity = 940\<rparr> @ replicate 97 \<lparr>Price = 20, Quantity = 850\<rparr>"
proof -
  have "replicate 100 (- 50 :: real) = replicate 3 (- 50) @ replicate 97 (- 50)"
    using replicate_add [of 3 97 "- 50 :: real"] by simp
  moreover have "zip (replicate 3 (2 :: real) @ replicate 97 20) (replicate 3 (- 50 :: real) @ replicate 97 (- 50))
      = replicate 3 (2, - 50) @ replicate 97 (20, - 50)"
    by simp
  ultimately show ?thesis
    by (simp add: base_rows_def sort_two_runs)
qed

lemma late_sale_spec: "spec_generate late_sale_env 0 = (Inr late_sale_dataset, 240)"
proof -
  have "random_normal late_sale_env = random_normal steady_env" "random_uniform late_sale_env = random_uniform steady_env"
    by (simp_all add: late_sale_env_def)
  then show ?thesis
    by (simp add: spec_generate_def late_sale_base steady_draws late_sale_base_rows outlier_rows_def
        late_sale_dataset_def)
qed



lemma raising_spec:
  assumes "random_exponential env = random_exponential steady_env"
    and "random_normal env = random_normal steady_env"
    and "\<And>low high r. random_uniform env low high r = Inl e"
  shows "spec_generate env r = (Inl e, r + 200)"
proof -
  have u: "draw 10 (random_uniform env low high) r = Inl e" for r low high
    by (simp add: numeral_eq_Suc assms(3))
  show ?thesis
    by (simp add: spec_generate_def u assms(1,2) steady_draws)
qed

lemma failing_spec: "spec_generate failing_env r = (Inl (Exception ''entropy source unavailable''), r + 200)"
  by (rule raising_spec) (simp_all add: failing_env_def)

lemma interrupted_spec: "spec_generate interrupted_env r = (Inl KeyboardInterrupt, r + 200)"
  by (rule raising_spec) (simp_all add: interrupted_env_def)

subsection \<open>The claims about the generator\<close>

text \<open>
  C1. Every row of a data set that \<open>generate_synthetic_data\<close> returns has a price of
  at least 5, whatever the random draws were.
\<close>

theorem price_at_least_5:
  "fst (generate_synthetic_data env s) = Inr df \<Longrightarrow> \<forall>row \<in> set df. 5 \<le> Price row"
proof -
  assume "fst (generate_synthetic_data env s) = Inr df"
  then have "fst (spec_generate env (rng s)) = Inr df"
    by (simp add: generate_fst)
  then show ?thesis
    by (rule spec_generate_InrE) (auto simp: not_less)
qed

theorem price_at_least_5_witness:
  "fst (generate_synthetic_data late_sale_env fresh) = Inr late_sale_dataset
   \<and> list_all (\<lambda>row. 5 \<le> Price row) late_sale_dataset"
proof -
  have h: "fst (generate_synthetic_data late_sale_env fresh) = Inr late_sale_dataset"
    by (simp add: generate_fst late_sale_spec fresh_def)
  from price_at_least_5 [OF h] show ?thesis
    using h by (simp add: list_all_iff)
qed



text \<open>
  C3. When the uniform draws lie in their intervals, [5, 50) and [51, 100), the returned
  data set has as many rows as there are base prices of at least 5, plus 20: no outlier
  row is dropped.
\<close>

theorem row_count:
  assumes low: "\<forall>r x r'. random_uniform env 5 50 r = Inr (x, r') \<longrightarrow> 5 \<le> x \<and> x < 50"
    and high: "\<forall>r x r'. random_uniform env 51 100 r = Inr (x, r') \<longrightarrow> 51 \<le> x \<and> x < 100"
    and base: "draw 100 (random_exponential env 100) (rng s) = Inr (base_prices, r1)"
    and df: "fst (generate_synthetic_data env s) = Inr df"
  shows "length df = length (filter (\<lambda>p. 5 \<le> p) base_prices) + 20"
proof -
  from df have "fst (spec_generate env (rng s)) = Inr df"
    by (simp add: generate_fst)
  then obtain x1 r1' x2 r2 x3 r3 x4 r4 x5 r5 x6 r6 where
    d1: "draw 100 (random_exponential env 100) (rng s) = Inr (x1, r1')" and
    d2: "draw 100 (random_normal env 0 50) r1' = Inr (x2, r2)" and
    d3: "draw 10 (random_uniform env 5 50) r2 = Inr (x3, r3)" and
    d4: "draw 10 (random_normal env 0 50) r3 = Inr (x4, r4)" and
    d5: "draw 10 (random_uniform env 51 100) r4 = Inr (x5, r5)" and
    d6: "draw 10 (random_normal env 0 50) r5 = Inr (x6, r6)" and
    eq: "df = filter (\<lambda>r. \<not> Price r < 5)
            (base_rows x1 x2 @ outlier_rows 1100 x3 x4 @ outlier_rows 900 x5 x6)"
    by (rule spec_generate_InrE)
  from base d1 have x1: "x1 = base_prices" by simp
  note len = draw_length [OF d1] draw_length [OF d2] draw_length [OF d3] draw_length [OF d4]
    draw_length [OF d5] draw_length [OF d6]
  have "\<forall>p \<in> set x3. 5 \<le> p \<and> p < 50"
    using d3 low by (rule_tac draw_all) auto
  then have k3: "filter (\<lambda>r. \<not> Price r < 5) (outlier_rows 1100 x3 x4) = outlier_rows 1100 x3 x4"
    using len by (intro kept_outlier_rows) auto
  have "\<forall>p \<in> set x5. 51 \<le> p \<and> p < 100"
    using d5 high by (rule_tac draw_all) auto
  then have k5: "filter (\<lambda>r. \<not> Price r < 5) (outlier_rows 900 x5 x6) = outlier_rows 900 x5 x6"
    using len by (intro kept_outlier_rows) auto
  have k1: "length (filter (\<lambda>r. \<not> Price r < 5) (base_rows x1 x2)) = length (filter (\<lambda>p. 5 \<le> p) x1)"
    using len by (intro kept_base_rows) simp
  have "length df = length (filter (\<lambda>p. 5 \<le> p) x1) + (length x3 + length x5)"
    using len by (simp add: eq k1 k3 k5 length_outlier_rows)
  then show ?thesis
    using len by (simp add: x1)
qed

theorem row_count_witness:
  "draw 100 (random_exponential late_sale_env 100) (rng fresh) = Inr (replicate 97 20 @ replicate 3 2, 100)
   \<and> fst (generate_synthetic_data late_sale_env fresh) = Inr late_sale_dataset
   \<and> length late_sale_dataset = 97 + 20
   \<and> length (filter (\<lambda>p. 5 \<le> p) (replicate 97 20 @ replicate 3 (2 :: real))) = 97"
proof -
  have low: "\<forall>r x r'. random_uniform late_sale_env 5 50 r = Inr (x, r') \<longrightarrow> 5 \<le> x \<and> x < 50"
    by (simp add: late_sale_env_def steady_env_def)
  have high: "\<forall>r x r'. random_uniform late_sale_env 51 100 r = Inr (x, r') \<longrightarrow> 51 \<le> x \<and> x < 100"
    by (simp add: late_sale_env_def steady_env_def)
  have base: "draw 100 (random_exponential late_sale_env 100) (rng fresh) = Inr (replicate 97 20 @ replicate 3 2, 100)"
    by (simp add: late_sale_base fresh_def)
  have df: "fst (generate_synthetic_data late_sale_env fresh) = Inr late_sale_dataset"
    by (simp add: generate_fst late_sale_spec fresh_def)
  from row_count [OF low high base df] base df show ?thesis
    by simp
qed

text \<open>
  C4. \<open>generate_synthetic_data\<close> computes what the specification's construction
  computes: the same data set or the same exception, from the same draws in the same
  order, reaching the same generator state.
\<close>

theorem generate_follows_spec:
  "fst (generate_synthetic_data env s) = fst (spec_generate env (rng s))
   \<and> rng (snd (generate_synthetic_data env s)) = snd (spec_generate env (rng s))"
  by (simp add: generate_fst generate_rng)

theorem generate_follows_spec_witness:
  "fst (generate_synthetic_data steady_env fresh) = Inr steady_dataset
   \<and> rng (snd (generate_synthetic_data steady_env fresh)) = 240"
  using generate_follows_spec [of steady_env fresh]
  by (simp add: steady_spec fresh_def)

text \<open>
  C6. The result of \<open>generate_synthetic_data\<close> is a function of the generator state
  alone: two runs that start from one generator state return the same data set (or raise
  the same exception), whatever the log and the world are; so do two runs that start from
  the state one seed installs.
\<close>

theorem generate_deterministic:
  "(rng s1 = rng s2 \<longrightarrow>
      fst (generate_synthetic_data env s1) = fst (generate_synthetic_data env s2))
   \<and> fst (generate_synthetic_data env (s1\<lparr>rng := random_seed env k\<rparr>))
       = fst (generate_synthetic_data env (s2\<lparr>rng := random_seed env k\<rparr>))"
  by (simp add: generate_fst)

theorem generate_deterministic_witness:
  "rng fresh = rng used \<and> logged fresh \<noteq> logged used
   \<and> fst (generate_synthetic_data steady_env fresh) = fst (generate_synthetic_data steady_env used)
   \<and> fst (generate_synthetic_data steady_env used) = Inr steady_dataset"
proof -
  have h: "rng fresh = rng used"
    by (simp add: fresh_def used_def)
  have "fst (generate_synthetic_data steady_env used) = Inr steady_dataset"
    by (simp add: generate_fst steady_spec)
  with h generate_deterministic [of fresh used steady_env 1] show ?thesis
    by (simp add: fresh_def used_def)
qed

text \<open>
  C7, as stated, fails for the exceptions outside the class \<open>Exception\<close>: the handler
  is \<open>except Exception\<close>, so a keyboard interrupt during a draw leaves the function
  with no record at level ERROR.
\<close>

theorem generate_reraises_counterexample:
  "generate_synthetic_data interrupted_env fresh =
     (Inl KeyboardInterrupt,
      \<lparr>logged = [(INFO, ''Generating synthetic data'')], rng = 200, world = ()\<rparr>)"
  by (simp add: generate_eq interrupted_spec fresh_def)

text \<open>
  C7, amended. When the body of \<open>generate_synthetic_data\<close> raises an exception, the
  function raises that same exception and draws nothing again. For an instance of
  \<open>Exception\<close> it first emits one record at level ERROR that carries the text of the
  exception; for any other exception it emits nothing.
\<close>

theorem generate_reraises:
  "generate_synthetic_data_body env s = (Inl e, s') \<Longrightarrow>
   generate_synthetic_data env s =
     (Inl e,
      if is_Exception e
      then s'\<lparr>logged := logged s' @
        [(ERROR, CHR 0x09 # ''Error in generating synthetic data: '' @ exn_str e)]\<rparr>
      else s')"
  by (simp add: generate_synthetic_data_def py_try_def py_bind_def error_def emit_def py_raise_def)

theorem generate_reraises_witness:
  "generate_synthetic_data_body failing_env fresh =
     (Inl (Exception ''entropy source unavailable''),
      \<lparr>logged = [(INFO, ''Generating synthetic data'')], rng = 200, world = ()\<rparr>)
   \<and> generate_synthetic_data failing_env fresh =
     (Inl (Exception ''entropy source unavailable''),
      \<lparr>logged = [(INFO, ''Generating synthetic data''),
                 (ERROR, CHR 0x09 # ''Error in generating synthetic data: entropy source unavailable'')],
       rng = 200, world = ()\<rparr>)"
proof -
  have h: "generate_synthetic_data_body failing_env fresh =
     (Inl (Exception ''entropy source unavailable''),
      \<lparr>logged = [(INFO, ''Generating synthetic data'')], rng = 200, world = ()\<rparr>)"
    by (simp add: generate_body_eq failing_spec fresh_def)
  from generate_reraises [OF h] h show ?thesis
    by simp
qed

section \<open>Properties of the main block\<close>

lemma bind_Inl: "m s = (Inl e, s') \<Longrightarrow> py_bind m k s = (Inl e, s')"
  by (simp add: py_bind_def)

lemma bind_Inr: "m s = (Inr a, s') \<Longrightarrow> py_bind m k s = k a s'"
  by (simp add: py_bind_def)








subsection \<open>The claim about the main block\<close>




section \<open>Properties of the logging facility\<close>

subsection \<open>File names\<close>




subsection \<open>The loop of the cleanup\<close>





subsection \<open>Counting the log files that remain\<close>








subsection \<open>Constructions one after the other\<close>



subsection \<open>The cleanup as a fold\<close>


subsection \<open>The directory of log files\<close>

lemmas run_defs = create_logger_def LoggerManager_def cleanup_old_logs_def log_pattern_def
  log_filename_def os_path_join_def log_files_def logs_dir_def in_logs_def print_def quoted_def




subsection \<open>The claims about the logging facility\<close>







text \<open>
  C10. The pattern of a component, \<open><script_name>-*.log\<close>, also matches the log files
  of a component whose name begins with \<open><script_name>-\<close>. The comment in
  \<open>_cleanup_old_logs\<close> reads "Find all log files for this script"; yet with three log
  files of \<open>app-core\<close> in the directory and none of \<open>app\<close>, a construction for \<open>app\<close>
  removes the oldest log file of \<open>app-core\<close>. The log file of another component is not
  left unchanged.
\<close>

theorem other_component_log_deleted:
  "log_files logs_dir ''app-core'' ''logs'' core_logs =
     [''logs/app-core-2024-01-01-09-00-00.log'',
      ''logs/app-core-2024-01-02-09-00-00.log'',
      ''logs/app-core-2024-01-03-09-00-00.log'']
   \<and> fst (create_logger logs_dir ''app'' ''2024-01-04-09-00-00'' core_logs)
       = Inr ''logs/app-2024-01-04-09-00-00.log''
   \<and> files (fs (snd (create_logger logs_dir ''app'' ''2024-01-04-09-00-00'' core_logs))) =
     [''logs/app-core-2024-01-02-09-00-00.log'',
      ''logs/app-core-2024-01-03-09-00-00.log'',
      ''logs/app-2024-01-04-09-00-00.log'']
   \<and> log_files logs_dir ''app-core'' ''logs''
       (snd (create_logger logs_dir ''app'' ''2024-01-04-09-00-00'' core_logs)) =
     [''logs/app-core-2024-01-02-09-00-00.log'',
      ''logs/app-core-2024-01-03-09-00-00.log'']"
  by (simp add: run_defs core_logs_def)

end
